theory Spec2Isabelle
  imports Main
begin

section \<open>hyperglass/execution/construct.py: construction of device queries\<close>

text \<open>
  The module turns a validated query into a list of strings: the JSON text of a
  parameter dictionary for the transport \<open>rest\<close>, or a device command rendered from a
  template for the transport \<open>scrape\<close>.  Every \<^verbatim>\<open>raise\<close> of the Python code, and every
  exception one of its expressions can throw, is a value \<open>Inl e\<close> of the result type.
\<close>

subsection \<open>Exceptions\<close>

text \<open>
  \<open>AttributeError owner attr\<close> is Python's
  \<^verbatim>\<open>'<owner>' object has no attribute '<attr>'\<close>.  The owner tells the three places
  apart where the module reads attributes: \<open>NoneType\<close> (a sub-record or source address
  that is \<^verbatim>\<open>None\<close>), \<open>CommandsObj\<close> (a level of the command catalogue), \<open>StrObj\<close> (a
  template string) and \<open>VrfObj\<close> (a VRF record).
  \<open>HyperglassError message alert keywords\<close> is the one exception the module raises
  itself.
\<close>

datatype owner = NoneType | CommandsObj | StrObj | VrfObj

datatype error =
    HyperglassError string string "string option list"
  | AttributeError owner string
  | ValueError
  | KeyError string

subsection \<open>Data model\<close>

text \<open>
  An address object of \<^verbatim>\<open>ipaddress\<close> is kept as its compressed text, which is also what
  \<^verbatim>\<open>str\<close> returns for it.
\<close>

datatype ip_address = IPAddress (compressed: string)

record afi_info =
  vrf_name :: string
  source_address :: "ip_address option"

record vrf =
  name :: string
  ipv4 :: "afi_info option"
  ipv6 :: "afi_info option"

record device =
  nos :: string
  commands :: string
  vrfs :: "vrf list"

record query_data =
  query_target :: string
  query_vrf :: "string option"

text \<open>The attributes \<^verbatim>\<open>__init__\<close> sets on \<^verbatim>\<open>self\<close>.\<close>

record construct =
  self_device :: device
  self_query_data :: query_data
  self_transport :: string
  self_query_target :: string
  self_query_vrf :: "string option"
  self_device_vrf :: vrf

subsection \<open>What the module imports\<close>

text \<open>
  A command template is a format string with replacement fields.  It is kept in parsed
  form: literal text and named fields \<^verbatim>\<open>{name}\<close>.  The catalogue
  \<^verbatim>\<open>hyperglass.configuration.commands\<close> is an object whose attributes are objects or
  template strings; the attributes a template string has of its own are not part of the
  model.
\<close>

datatype piece = Lit string | Field string

type_synonym template = "piece list"

datatype cmd_obj = Template template | Group "(string \<times> cmd_obj) list"

text \<open>
  \<^verbatim>\<open>ipaddress.ip_network(s)\<close> returns an IPv4 or an IPv6 network object or raises
  \<^verbatim>\<open>ValueError\<close>; the module reads only \<^verbatim>\<open>.version\<close> of the result.
\<close>

datatype network = IPv4Network | IPv6Network

fun version :: "network \<Rightarrow> nat" where
  "version IPv4Network = 4"
| "version IPv6Network = 6"

text \<open>The three imported values the code depends on are gathered in one record:
  \<^verbatim>\<open>hyperglass.constants.target_format_space\<close>, the command catalogue, and the parser
  of the standard library (\<open>None\<close> where it raises).\<close>

record env =
  target_format_space :: "string list"
  commands_catalog :: cmd_obj
  ip_network :: "string \<Rightarrow> network option"

subsection \<open>Python primitives\<close>

text \<open>\<^verbatim>\<open>str(n)\<close> for the two version numbers.\<close>

definition str_version :: "nat \<Rightarrow> string" where
  "str_version n = (if n = 4 then ''4'' else ''6'')"

text \<open>\<^verbatim>\<open>s.split(c)\<close>: the pieces between the separators, never an empty list.\<close>

fun split_on :: "char \<Rightarrow> string \<Rightarrow> string list" where
  "split_on c [] = [[]]"
| "split_on c (x # xs) =
     (if x = c then [] # split_on c xs
      else (case split_on c xs of
              [] \<Rightarrow> [[x]]
            | w # ws \<Rightarrow> (x # w) # ws))"

fun getattr_obj :: "cmd_obj \<Rightarrow> string \<Rightarrow> error + cmd_obj" where
  "getattr_obj (Group kvs) n =
     (case map_of kvs n of
        None \<Rightarrow> Inl (AttributeError CommandsObj n)
      | Some v \<Rightarrow> Inr v)"
| "getattr_obj (Template t) n = Inl (AttributeError StrObj n)"

text \<open>\<^verbatim>\<open>operator.attrgetter(path)(obj)\<close> after the path is split at the dots.\<close>

fun attrgetter :: "string list \<Rightarrow> cmd_obj \<Rightarrow> error + cmd_obj" where
  "attrgetter [] obj = Inr obj"
| "attrgetter (n # ns) obj =
     (case getattr_obj obj n of
        Inl e \<Rightarrow> Inl e
      | Inr v \<Rightarrow> attrgetter ns v)"

text \<open>
  \<^verbatim>\<open>template.format(**kwargs)\<close>: fields are replaced from left to right, a field that
  is no keyword raises \<^verbatim>\<open>KeyError\<close>.
\<close>

fun str_format :: "template \<Rightarrow> (string \<times> string) list \<Rightarrow> error + string" where
  "str_format [] kw = Inr []"
| "str_format (Lit s # ps) kw =
     (case str_format ps kw of
        Inl e \<Rightarrow> Inl e
      | Inr r \<Rightarrow> Inr (s @ r))"
| "str_format (Field n # ps) kw =
     (case map_of kw n of
        None \<Rightarrow> Inl (KeyError n)
      | Some v \<Rightarrow>
          (case str_format ps kw of
             Inl e \<Rightarrow> Inl e
           | Inr r \<Rightarrow> Inr (v @ r)))"

text \<open>\<^verbatim>\<open>cmd.format\<close> on what the catalogue returned: only a string has the method.\<close>

fun cmd_format :: "cmd_obj \<Rightarrow> error + template" where
  "cmd_format (Template t) = Inr t"
| "cmd_format (Group kvs) = Inl (AttributeError CommandsObj ''format'')"

text \<open>How \<^verbatim>\<open>format\<close> renders the \<^verbatim>\<open>source\<close> keyword: an address or \<^verbatim>\<open>None\<close>.\<close>

fun str_source :: "ip_address option \<Rightarrow> string" where
  "str_source None = ''None''"
| "str_source (Some a) = compressed a"

text \<open>\<^verbatim>\<open>getattr(self.device_vrf, key)\<close> for the attributes of a VRF the module reads
  this way.\<close>

definition getattr_vrf :: "vrf \<Rightarrow> string \<Rightarrow> error + afi_info option" where
  "getattr_vrf v key =
     (if key = ''ipv4'' then Inr (ipv4 v)
      else if key = ''ipv6'' then Inr (ipv6 v)
      else Inl (AttributeError VrfObj key))"

text \<open>
  \<^verbatim>\<open>self.device_vrf.dict()\<close>, in the order the fields are declared; a sub-record becomes
  a nested dictionary, which is never empty, or stays \<^verbatim>\<open>None\<close>.
\<close>

datatype pyval = PyStr string | PySub "afi_info option"

fun truthy :: "pyval \<Rightarrow> bool" where
  "truthy (PyStr s) = (s \<noteq> [])"
| "truthy (PySub None) = False"
| "truthy (PySub (Some r)) = True"

definition vrf_dict :: "vrf \<Rightarrow> (string \<times> pyval) list" where
  "vrf_dict v =
     [(''name'', PyStr (name v)), (''ipv4'', PySub (ipv4 v)), (''ipv6'', PySub (ipv6 v))]"

subsection \<open>The artifacts\<close>

text \<open>
  \<open>JsonDumps d\<close> is \<^verbatim>\<open>json.dumps(d)\<close> for the dictionary \<open>d\<close>, its items in the order
  the code writes them; \<open>Cmd s\<close> is a rendered command.
\<close>

datatype json = JNull | JStr string

datatype artifact = JsonDumps "(string \<times> json) list" | Cmd string

subsection \<open>Class \<open>Construct\<close>\<close>

fun get_device_vrf_loop :: "vrf list \<Rightarrow> string option \<Rightarrow> vrf option \<Rightarrow> vrf option" where
  "get_device_vrf_loop [] qv device_vrf = device_vrf"
| "get_device_vrf_loop (v # vs) qv device_vrf =
     get_device_vrf_loop vs qv (if Some (name v) = qv then Some v else device_vrf)"

definition get_device_vrf :: "device \<Rightarrow> string option \<Rightarrow> error + vrf" where
  "get_device_vrf dev qv =
     (case get_device_vrf_loop (vrfs dev) qv None of
        None \<Rightarrow>
          Inl (HyperglassError ''Unable to match query VRF to any configured VRFs''
                 ''danger'' [qv])
      | Some v \<Rightarrow> Inr v)"

definition Construct_init :: "device \<Rightarrow> query_data \<Rightarrow> string \<Rightarrow> error + construct" where
  "Construct_init dev qd tr =
     (case get_device_vrf dev (query_vrf qd) of
        Inl e \<Rightarrow> Inl e
      | Inr v \<Rightarrow>
          Inr \<lparr>self_device = dev, self_query_data = qd, self_transport = tr,
               self_query_target = query_target qd, self_query_vrf = query_vrf qd,
               self_device_vrf = v\<rparr>)"

definition format_target :: "env \<Rightarrow> construct \<Rightarrow> string \<Rightarrow> string" where
  "format_target E self target =
     (if nos (self_device self) \<in> set (target_format_space E)
      then map (\<lambda>c. if c = CHR ''/'' then CHR '' '' else c) target
      else target)"

definition device_commands :: "env \<Rightarrow> string \<Rightarrow> string \<Rightarrow> string \<Rightarrow> error + cmd_obj" where
  "device_commands E n afi query_type =
     attrgetter (split_on CHR ''.'' (n @ ''.'' @ afi @ ''.'' @ query_type))
       (commands_catalog E)"

definition get_cmd_type :: "string \<Rightarrow> string option \<Rightarrow> string" where
  "get_cmd_type query_protocol qv =
     (if qv \<noteq> None \<and> qv \<noteq> Some [] \<and> qv \<noteq> Some ''default''
      then query_protocol @ ''_vpn''
      else query_protocol @ ''_default'')"

text \<open>
  The three single-target operations.  The order of the checks is the order in which
  Python evaluates the expressions: the items of the dictionary from first to last, the
  catalogue lookup before \<^verbatim>\<open>cmd.format\<close>, and the keyword arguments from left to right.
\<close>

definition ping :: "env \<Rightarrow> construct \<Rightarrow> error + artifact list" where
  "ping E self =
     (case ip_network E (self_query_target self) of
        None \<Rightarrow> Inl ValueError
      | Some net \<Rightarrow>
          (let query_protocol = ''ipv'' @ str_version (version net) in
           case getattr_vrf (self_device_vrf self) query_protocol of
             Inl e \<Rightarrow> Inl e
           | Inr afi \<Rightarrow>
               (let cmd_type = get_cmd_type query_protocol (self_query_vrf self) in
                if self_transport self = ''rest'' then
                  (case afi of
                     None \<Rightarrow> Inl (AttributeError NoneType ''vrf_name'')
                   | Some a \<Rightarrow>
                       (case source_address a of
                          None \<Rightarrow> Inl (AttributeError NoneType ''compressed'')
                        | Some src \<Rightarrow>
                            Inr [JsonDumps
                                  [(''query_type'', JStr ''ping''),
                                   (''vrf'', JStr (vrf_name a)),
                                   (''afi'', JStr cmd_type),
                                   (''source'', JStr (compressed src)),
                                   (''target'', JStr (self_query_target self))]]))
                else if self_transport self = ''scrape'' then
                  (case device_commands E (commands (self_device self)) cmd_type ''ping'' of
                     Inl e \<Rightarrow> Inl e
                   | Inr cmd \<Rightarrow>
                       (case cmd_format cmd of
                          Inl e \<Rightarrow> Inl e
                        | Inr t \<Rightarrow>
                            (case afi of
                               None \<Rightarrow> Inl (AttributeError NoneType ''source_address'')
                             | Some a \<Rightarrow>
                                 (case str_format t
                                         [(''target'', self_query_target self),
                                          (''source'', str_source (source_address a)),
                                          (''vrf'', vrf_name a)] of
                                    Inl e \<Rightarrow> Inl e
                                  | Inr s \<Rightarrow> Inr [Cmd s]))))
                else Inr [])))"

definition traceroute :: "env \<Rightarrow> construct \<Rightarrow> error + artifact list" where
  "traceroute E self =
     (case ip_network E (self_query_target self) of
        None \<Rightarrow> Inl ValueError
      | Some net \<Rightarrow>
          (let query_protocol = ''ipv'' @ str_version (version net) in
           case getattr_vrf (self_device_vrf self) query_protocol of
             Inl e \<Rightarrow> Inl e
           | Inr afi \<Rightarrow>
               (let cmd_type = get_cmd_type query_protocol (self_query_vrf self) in
                if self_transport self = ''rest'' then
                  (case afi of
                     None \<Rightarrow> Inl (AttributeError NoneType ''vrf_name'')
                   | Some a \<Rightarrow>
                       (case source_address a of
                          None \<Rightarrow> Inl (AttributeError NoneType ''compressed'')
                        | Some src \<Rightarrow>
                            Inr [JsonDumps
                                  [(''query_type'', JStr ''traceroute''),
                                   (''vrf'', JStr (vrf_name a)),
                                   (''afi'', JStr cmd_type),
                                   (''source'', JStr (compressed src)),
                                   (''target'', JStr (self_query_target self))]]))
                else if self_transport self = ''scrape'' then
                  (case device_commands E (commands (self_device self)) cmd_type
                          ''traceroute'' of
                     Inl e \<Rightarrow> Inl e
                   | Inr cmd \<Rightarrow>
                       (case cmd_format cmd of
                          Inl e \<Rightarrow> Inl e
                        | Inr t \<Rightarrow>
                            (case afi of
                               None \<Rightarrow> Inl (AttributeError NoneType ''source_address'')
                             | Some a \<Rightarrow>
                                 (case str_format t
                                         [(''target'', self_query_target self),
                                          (''source'', str_source (source_address a)),
                                          (''vrf'', vrf_name a)] of
                                    Inl e \<Rightarrow> Inl e
                                  | Inr s \<Rightarrow> Inr [Cmd s]))))
                else Inr [])))"

definition bgp_route :: "env \<Rightarrow> construct \<Rightarrow> error + artifact list" where
  "bgp_route E self =
     (case ip_network E (self_query_target self) of
        None \<Rightarrow> Inl ValueError
      | Some net \<Rightarrow>
          (let query_protocol = ''ipv'' @ str_version (version net) in
           case getattr_vrf (self_device_vrf self) query_protocol of
             Inl e \<Rightarrow> Inl e
           | Inr afi \<Rightarrow>
               (let cmd_type = get_cmd_type query_protocol (self_query_vrf self) in
                if self_transport self = ''rest'' then
                  (case afi of
                     None \<Rightarrow> Inl (AttributeError NoneType ''vrf_name'')
                   | Some a \<Rightarrow>
                       Inr [JsonDumps
                             [(''query_type'', JStr ''bgp_route''),
                              (''vrf'', JStr (vrf_name a)),
                              (''afi'', JStr cmd_type),
                              (''source'', JNull),
                              (''target'',
                               JStr (format_target E self (self_query_target self)))]])
                else if self_transport self = ''scrape'' then
                  (case device_commands E (commands (self_device self)) cmd_type
                          ''bgp_route'' of
                     Inl e \<Rightarrow> Inl e
                   | Inr cmd \<Rightarrow>
                       (case cmd_format cmd of
                          Inl e \<Rightarrow> Inl e
                        | Inr t \<Rightarrow>
                            (case afi of
                               None \<Rightarrow> Inl (AttributeError NoneType ''source_address'')
                             | Some a \<Rightarrow>
                                 (case str_format t
                                         [(''target'',
                                           format_target E self (self_query_target self)),
                                          (''source'', str_source (source_address a)),
                                          (''vrf'', vrf_name a)] of
                                    Inl e \<Rightarrow> Inl e
                                  | Inr s \<Rightarrow> Inr [Cmd s]))))
                else Inr [])))"

text \<open>
  The two fan-out operations.  The first loop collects the keys \<^verbatim>\<open>ipv4\<close> and
  \<^verbatim>\<open>ipv6\<close> of the VRF's dictionary whose value is truthy; the second loop appends one
  artifact for each collected key to \<^verbatim>\<open>query\<close>.
\<close>

definition collect_afis :: "vrf \<Rightarrow> string list" where
  "collect_afis v =
     map fst
       (filter (\<lambda>(vrf_key, vrf_value). truthy vrf_value)
          (filter (\<lambda>(p, e). p \<in> set [''ipv4'', ''ipv6'']) (vrf_dict v)))"

fun bgp_community_loop ::
  "env \<Rightarrow> construct \<Rightarrow> string list \<Rightarrow> artifact list \<Rightarrow> error + artifact list" where
  "bgp_community_loop E self [] query = Inr query"
| "bgp_community_loop E self (afi # afis) query =
     (case getattr_vrf (self_device_vrf self) afi of
        Inl e \<Rightarrow> Inl e
      | Inr afi_attr \<Rightarrow>
          (let cmd_type = get_cmd_type afi (self_query_vrf self) in
           if self_transport self = ''rest'' then
             (case afi_attr of
                None \<Rightarrow> Inl (AttributeError NoneType ''vrf_name'')
              | Some a \<Rightarrow>
                  bgp_community_loop E self afis
                    (query @
                     [JsonDumps
                        [(''query_type'', JStr ''bgp_community''),
                         (''vrf'', JStr (vrf_name a)),
                         (''afi'', JStr cmd_type),
                         (''target'', JStr (self_query_target self)),
                         (''source'', JNull)]]))
           else if self_transport self = ''scrape'' then
             (case device_commands E (commands (self_device self)) cmd_type
                     ''bgp_community'' of
                Inl e \<Rightarrow> Inl e
              | Inr cmd \<Rightarrow>
                  (case cmd_format cmd of
                     Inl e \<Rightarrow> Inl e
                   | Inr t \<Rightarrow>
                       (case afi_attr of
                          None \<Rightarrow> Inl (AttributeError NoneType ''source_address'')
                        | Some a \<Rightarrow>
                            (case str_format t
                                    [(''target'', self_query_target self),
                                     (''source'', str_source (source_address a)),
                                     (''vrf'', vrf_name a)] of
                               Inl e \<Rightarrow> Inl e
                             | Inr s \<Rightarrow>
                                 bgp_community_loop E self afis (query @ [Cmd s])))))
           else bgp_community_loop E self afis query))"

definition bgp_community :: "env \<Rightarrow> construct \<Rightarrow> error + artifact list" where
  "bgp_community E self =
     bgp_community_loop E self (collect_afis (self_device_vrf self)) []"

fun bgp_aspath_loop ::
  "env \<Rightarrow> construct \<Rightarrow> string list \<Rightarrow> artifact list \<Rightarrow> error + artifact list" where
  "bgp_aspath_loop E self [] query = Inr query"
| "bgp_aspath_loop E self (afi # afis) query =
     (case getattr_vrf (self_device_vrf self) afi of
        Inl e \<Rightarrow> Inl e
      | Inr afi_attr \<Rightarrow>
          (let cmd_type = get_cmd_type afi (self_query_vrf self) in
           if self_transport self = ''rest'' then
             (case afi_attr of
                None \<Rightarrow> Inl (AttributeError NoneType ''vrf_name'')
              | Some a \<Rightarrow>
                  bgp_aspath_loop E self afis
                    (query @
                     [JsonDumps
                        [(''query_type'', JStr ''bgp_aspath''),
                         (''vrf'', JStr (vrf_name a)),
                         (''afi'', JStr cmd_type),
                         (''target'', JStr (self_query_target self)),
                         (''source'', JNull)]]))
           else if self_transport self = ''scrape'' then
             (case device_commands E (commands (self_device self)) cmd_type
                     ''bgp_aspath'' of
                Inl e \<Rightarrow> Inl e
              | Inr cmd \<Rightarrow>
                  (case cmd_format cmd of
                     Inl e \<Rightarrow> Inl e
                   | Inr t \<Rightarrow>
                       (case afi_attr of
                          None \<Rightarrow> Inl (AttributeError NoneType ''source_address'')
                        | Some a \<Rightarrow>
                            (case str_format t
                                    [(''target'', self_query_target self),
                                     (''source'', str_source (source_address a)),
                                     (''vrf'', vrf_name a)] of
                               Inl e \<Rightarrow> Inl e
                             | Inr s \<Rightarrow>
                                 bgp_aspath_loop E self afis (query @ [Cmd s])))))
           else bgp_aspath_loop E self afis query))"

definition bgp_aspath :: "env \<Rightarrow> construct \<Rightarrow> error + artifact list" where
  "bgp_aspath E self =
     bgp_aspath_loop E self (collect_afis (self_device_vrf self)) []"

subsection \<open>Notions of the specification\<close>

text \<open>
  The definitions of this subsection follow the words of the specification, not the
  code; the theorems compare the code with them.

  The address family of a target, and the sub-record of a VRF for it.
\<close>

definition protocol_name :: "network \<Rightarrow> string" where
  "protocol_name net = (case net of IPv4Network \<Rightarrow> ''ipv4'' | IPv6Network \<Rightarrow> ''ipv6'')"

definition target_family :: "network \<Rightarrow> vrf \<Rightarrow> afi_info option" where
  "target_family net v = (case net of IPv4Network \<Rightarrow> ipv4 v | IPv6Network \<Rightarrow> ipv6 v)"

text \<open>The address families populated on a VRF, \<open>ipv4\<close> before \<open>ipv6\<close>.\<close>

definition populated :: "vrf \<Rightarrow> (string \<times> afi_info) list" where
  "populated v =
     (case ipv4 v of None \<Rightarrow> [] | Some a \<Rightarrow> [(''ipv4'', a)]) @
     (case ipv6 v of None \<Rightarrow> [] | Some a \<Rightarrow> [(''ipv6'', a)])"

text \<open>Every \<open>/\<close> of a prefix replaced by a space.\<close>

definition escape_slash :: "string \<Rightarrow> string" where
  "escape_slash target = map (\<lambda>c. if c = CHR ''/'' then CHR '' '' else c) target"

text \<open>
  The artifact of one address family in a fan-out query of type \<open>qt\<close>: the API payload,
  or the template of the family's command category rendered with the target, the
  sub-record's source address and its table name.
\<close>

definition fanout_artifact ::
  "env \<Rightarrow> construct \<Rightarrow> string \<Rightarrow> string \<Rightarrow> afi_info \<Rightarrow> error + artifact" where
  "fanout_artifact E self qt k a =
     (if self_transport self = ''rest'' then
        Inr (JsonDumps
               [(''query_type'', JStr qt),
                (''vrf'', JStr (vrf_name a)),
                (''afi'', JStr (get_cmd_type k (self_query_vrf self))),
                (''target'', JStr (self_query_target self)),
                (''source'', JNull)])
      else
        (case device_commands E (commands (self_device self))
                (get_cmd_type k (self_query_vrf self)) qt of
           Inl e \<Rightarrow> Inl e
         | Inr cmd \<Rightarrow>
             (case cmd_format cmd of
                Inl e \<Rightarrow> Inl e
              | Inr t \<Rightarrow>
                  (case str_format t
                          [(''target'', self_query_target self),
                           (''source'', str_source (source_address a)),
                           (''vrf'', vrf_name a)] of
                     Inl e \<Rightarrow> Inl e
                   | Inr s \<Rightarrow> Inr (Cmd s)))))"

text \<open>The results of a list of steps, or the error of the first step that fails.\<close>

fun sequence :: "(error + 'a) list \<Rightarrow> error + 'a list" where
  "sequence [] = Inr []"
| "sequence (x # xs) =
     (case x of
        Inl e \<Rightarrow> Inl e
      | Inr y \<Rightarrow> (case sequence xs of Inl e \<Rightarrow> Inl e | Inr ys \<Rightarrow> Inr (y # ys)))"

subsection \<open>A sample configuration\<close>

text \<open>
  One device with three VRFs (the global table with both families, a customer VRF with
  IPv4 only whose sub-record has no source address, and a VRF with no family at all), a
  catalogue with templates for the command set \<open>cisco_ios\<close> in the categories
  \<open>ipv4_default\<close> and \<open>ipv6_default\<close> only, and a parser that knows four targets.
\<close>

definition ex_v4 :: afi_info where
  "ex_v4 = \<lparr>vrf_name = ''default'', source_address = Some (IPAddress ''192.0.2.1'')\<rparr>"

definition ex_v6 :: afi_info where
  "ex_v6 = \<lparr>vrf_name = ''default'', source_address = Some (IPAddress ''2001:db8::1'')\<rparr>"

definition ex_cust4 :: afi_info where
  "ex_cust4 = \<lparr>vrf_name = ''cust-a'', source_address = None\<rparr>"

definition ex_vrf_default :: vrf where
  "ex_vrf_default = \<lparr>name = ''default'', ipv4 = Some ex_v4, ipv6 = Some ex_v6\<rparr>"

definition ex_vrf_cust :: vrf where
  "ex_vrf_cust = \<lparr>name = ''CUSTOMER-A'', ipv4 = Some ex_cust4, ipv6 = None\<rparr>"

definition ex_vrf_empty :: vrf where
  "ex_vrf_empty = \<lparr>name = ''EMPTY'', ipv4 = None, ipv6 = None\<rparr>"

definition ex_device :: device where
  "ex_device =
     \<lparr>nos = ''huawei'', commands = ''cisco_ios'',
      vrfs = [ex_vrf_default, ex_vrf_cust, ex_vrf_empty]\<rparr>"

definition ex_templates :: "(string \<times> cmd_obj) list" where
  "ex_templates =
     [(''ping'', Template [Lit ''ping '', Field ''target'', Lit '' source '', Field ''source'']),
      (''traceroute'', Template [Lit ''traceroute '', Field ''target'']),
      (''bgp_route'', Template [Lit ''show bgp '', Field ''target'']),
      (''bgp_community'', Template [Lit ''show bgp community '', Field ''target'']),
      (''bgp_aspath'', Template [Lit ''show bgp regexp '', Field ''target''])]"

definition ex_parse :: "string \<Rightarrow> network option" where
  "ex_parse s =
     (if s = ''192.0.2.0/24'' \<or> s = ''192.0.2.7'' then Some IPv4Network
      else if s = ''2001:db8::/32'' \<or> s = ''2001:db8::7'' then Some IPv6Network
      else None)"

definition ex_env :: env where
  "ex_env =
     \<lparr>target_format_space = [''huawei'', ''huawei_vrpv8''],
      commands_catalog =
        Group [(''cisco_ios'',
                Group [(''ipv4_default'', Group ex_templates),
                       (''ipv6_default'', Group ex_templates)])],
      ip_network = ex_parse\<rparr>"


definition ex_self :: "string \<Rightarrow> string \<Rightarrow> vrf \<Rightarrow> construct" where
  "ex_self tr target v =
     \<lparr>self_device = ex_device,
      self_query_data = \<lparr>query_target = target, query_vrf = Some (name v)\<rparr>,
      self_transport = tr, self_query_target = target,
      self_query_vrf = Some (name v), self_device_vrf = v\<rparr>"

text \<open>A second record named \<open>default\<close>, with IPv6 only, and a device on which it
  follows the first one.\<close>

definition ex_vrf_v6only :: vrf where
  "ex_vrf_v6only = \<lparr>name = ''default'', ipv4 = None, ipv6 = Some ex_v6\<rparr>"

definition ex_dup_device :: device where
  "ex_dup_device =
     \<lparr>nos = ''cisco_ios'', commands = ''cisco_ios'',
      vrfs = [ex_vrf_default, ex_vrf_cust, ex_vrf_v6only]\<rparr>"

section \<open>Properties\<close>

subsection \<open>Auxiliary facts about the loops and lookups\<close>

lemma get_device_vrf_loop_filter:
  "get_device_vrf_loop vs qv acc =
     (case filter (\<lambda>v. Some (name v) = qv) vs of
        [] \<Rightarrow> acc
      | m # ms \<Rightarrow> Some (last (m # ms)))"
  by (induction vs arbitrary: acc) (auto split: list.splits)

lemma collect_afis_populated: "collect_afis v = map fst (populated v)"
  by (cases "ipv4 v"; cases "ipv6 v")
     (simp_all add: collect_afis_def populated_def vrf_dict_def)

lemma protocol_of_version:
  "''ipv'' @ str_version (version net) = protocol_name net"
  "CHR ''i'' # CHR ''p'' # CHR ''v'' # str_version (version net) = protocol_name net"
  by (cases net; simp add: str_version_def protocol_name_def)+

lemma getattr_vrf_protocol: "getattr_vrf v (protocol_name net) = Inr (target_family net v)"
  by (cases net) (simp_all add: protocol_name_def getattr_vrf_def target_family_def)

lemma getattr_vrf_keys:
  "getattr_vrf v ''ipv4'' = Inr (ipv4 v)" "getattr_vrf v ''ipv6'' = Inr (ipv6 v)"
  by (simp_all add: getattr_vrf_def)

lemma bgp_community_fanout:
  "self_transport self = ''rest'' \<or> self_transport self = ''scrape'' \<Longrightarrow>
   bgp_community E self =
     sequence (map (\<lambda>(k, a). fanout_artifact E self ''bgp_community'' k a)
                 (populated (self_device_vrf self)))"
  by (cases "ipv4 (self_device_vrf self)"; cases "ipv6 (self_device_vrf self)")
     (auto simp: bgp_community_def collect_afis_populated populated_def getattr_vrf_keys
        fanout_artifact_def Let_def split: sum.splits)

lemma bgp_aspath_fanout:
  "self_transport self = ''rest'' \<or> self_transport self = ''scrape'' \<Longrightarrow>
   bgp_aspath E self =
     sequence (map (\<lambda>(k, a). fanout_artifact E self ''bgp_aspath'' k a)
                 (populated (self_device_vrf self)))"
  by (cases "ipv4 (self_device_vrf self)"; cases "ipv6 (self_device_vrf self)")
     (auto simp: bgp_aspath_def collect_afis_populated populated_def getattr_vrf_keys
        fanout_artifact_def Let_def split: sum.splits)

lemma fanout_other_transport:
  "self_transport self \<noteq> ''rest'' \<Longrightarrow> self_transport self \<noteq> ''scrape'' \<Longrightarrow>
   bgp_community E self = Inr [] \<and> bgp_aspath E self = Inr []"
  by (cases "ipv4 (self_device_vrf self)"; cases "ipv6 (self_device_vrf self)")
     (simp_all add: bgp_community_def bgp_aspath_def collect_afis_populated populated_def
        getattr_vrf_keys)

lemma sequence_length: "sequence xs = Inr ys \<Longrightarrow> length ys = length xs"
  by (induction xs arbitrary: ys) (auto split: sum.splits)

lemma sequence_member: "sequence xs = Inr ys \<Longrightarrow> y \<in> set ys \<Longrightarrow> Inr y \<in> set xs"
  by (induction xs arbitrary: ys) (auto split: sum.splits)

lemma sequence_error: "Inl e \<in> set xs \<Longrightarrow> \<exists>e'. sequence xs = Inl e'"
  by (induction xs) (auto split: sum.splits)

lemma sequence_all_Inr: "sequence (map (\<lambda>x. Inr (f x)) xs) = Inr (map f xs)"
  by (induction xs) auto

lemma attrgetter_error: "attrgetter ns obj = Inl e \<Longrightarrow> \<exists>ow n. e = AttributeError ow n"
proof (induction ns arbitrary: obj)
  case Nil
  then show ?case by simp
next
  case (Cons n ns)
  then show ?case by (cases obj) (auto split: option.splits sum.splits)
qed

lemma device_commands_error:
  "device_commands E n c q = Inl e \<Longrightarrow> \<exists>ow at. e = AttributeError ow at"
  unfolding device_commands_def by (rule attrgetter_error)

lemma format_target_escape:
  "nos (self_device self) \<in> set (target_format_space E) \<Longrightarrow>
   format_target E self t = escape_slash t"
  by (simp add: format_target_def escape_slash_def)

lemma populated_keys:
  "map fst (populated v) =
     (if ipv4 v = None then [] else [''ipv4'']) @ (if ipv6 v = None then [] else [''ipv6''])"
  by (cases "ipv4 v"; cases "ipv6 v") (simp_all add: populated_def)

lemma populated_member:
  "(k, a) \<in> set (populated v) \<longleftrightarrow>
     (k = ''ipv4'' \<and> ipv4 v = Some a) \<or> (k = ''ipv6'' \<and> ipv6 v = Some a)"
  by (cases "ipv4 v"; cases "ipv6 v") (auto simp: populated_def)

lemma sequence_append:
  "sequence (xs @ ys) =
     (case sequence xs of
        Inl e \<Rightarrow> Inl e
      | Inr as \<Rightarrow> (case sequence ys of Inl e \<Rightarrow> Inl e | Inr bs \<Rightarrow> Inr (as @ bs)))"
  by (induction xs) (auto split: sum.splits)

lemma fanout_artifact_lookup_fails:
  "self_transport self = ''scrape'' \<Longrightarrow>
   device_commands E (commands (self_device self)) (get_cmd_type k (self_query_vrf self)) qt =
     Inl e \<Longrightarrow>
   fanout_artifact E self qt k a = Inl e"
  by (simp add: fanout_artifact_def)

lemma fanout_sequence_fails:
  assumes "self_transport self = ''scrape''"
    and "(k, a) \<in> set ps"
    and "device_commands E (commands (self_device self))
           (get_cmd_type k (self_query_vrf self)) qt = Inl e"
  shows "\<exists>e'. sequence (map (\<lambda>(k, a). fanout_artifact E self qt k a) ps) = Inl e'"
proof -
  have "(\<lambda>(k, a). fanout_artifact E self qt k a) (k, a) = Inl e"
    using fanout_artifact_lookup_fails [OF assms(1,3), of a] by simp
  with assms(2) have "Inl e \<in> (\<lambda>(k, a). fanout_artifact E self qt k a) ` set ps"
    by (metis image_eqI)
  then have "Inl e \<in> set (map (\<lambda>(k, a). fanout_artifact E self qt k a) ps)"
    by simp
  then show ?thesis by (rule sequence_error)
qed

lemma fanout_sequence_fails_at:
  assumes "self_transport self = ''scrape''"
    and "sequence (map (\<lambda>(k, a). fanout_artifact E self qt k a) ps1) = Inr xs"
    and "device_commands E (commands (self_device self))
           (get_cmd_type k (self_query_vrf self)) qt = Inl e"
  shows "sequence (map (\<lambda>(k, a). fanout_artifact E self qt k a) (ps1 @ (k, a) # ps2)) = Inl e"
  using assms(2) fanout_artifact_lookup_fails [OF assms(1,3), of a]
  by (simp add: sequence_append)

lemma ex_lookup:
  "device_commands ex_env ''cisco_ios'' ''ipv4_default'' ''ping'' =
     Inr (Template [Lit ''ping '', Field ''target'', Lit '' source '', Field ''source''])"
  "device_commands ex_env ''cisco_ios'' ''ipv4_default'' ''traceroute'' =
     Inr (Template [Lit ''traceroute '', Field ''target''])"
  "device_commands ex_env ''cisco_ios'' ''ipv4_default'' ''bgp_route'' =
     Inr (Template [Lit ''show bgp '', Field ''target''])"
  "device_commands ex_env ''cisco_ios'' ''ipv4_default'' ''bgp_community'' =
     Inr (Template [Lit ''show bgp community '', Field ''target''])"
  "device_commands ex_env ''cisco_ios'' ''ipv6_default'' ''bgp_community'' =
     Inr (Template [Lit ''show bgp community '', Field ''target''])"
  "device_commands ex_env ''cisco_ios'' ''ipv4_default'' ''bgp_aspath'' =
     Inr (Template [Lit ''show bgp regexp '', Field ''target''])"
  "device_commands ex_env ''cisco_ios'' ''ipv6_default'' ''bgp_aspath'' =
     Inr (Template [Lit ''show bgp regexp '', Field ''target''])"
  "device_commands ex_env ''cisco_ios'' ''ipv4_vpn'' q =
     Inl (AttributeError CommandsObj ''ipv4_vpn'')"
  by (simp_all add: device_commands_def ex_env_def ex_templates_def)

lemmas single_defs = ping_def traceroute_def bgp_route_def

lemmas ex_defs =
  ex_self_def ex_env_def ex_device_def ex_parse_def ex_vrf_default_def ex_vrf_cust_def
  ex_vrf_empty_def ex_vrf_v6only_def ex_v4_def ex_v6_def ex_cust4_def

subsection \<open>Command category\<close>

text \<open>
  Claim C6.  For every address-family prefix and every VRF name, \<open>get_cmd_type\<close> returns
  the prefix followed by \<open>_vpn\<close> exactly when the VRF name is given, is not empty and is
  not the literal \<open>default\<close>, and the prefix followed by \<open>_default\<close> otherwise; the three
  examples of the specification are instances.
\<close>

theorem get_cmd_type_category:
  "(get_cmd_type afi v = afi @ ''_vpn'' \<longleftrightarrow>
      v \<noteq> None \<and> v \<noteq> Some [] \<and> v \<noteq> Some ''default'') \<and>
   (get_cmd_type afi v = afi @ ''_default'' \<longleftrightarrow>
      v = None \<or> v = Some [] \<or> v = Some ''default'') \<and>
   get_cmd_type ''ipv4'' (Some ''default'') = ''ipv4_default'' \<and>
   get_cmd_type ''ipv4'' (Some ''CUSTOMER-A'') = ''ipv4_vpn'' \<and>
   get_cmd_type ''ipv6'' None = ''ipv6_default''"
  by (simp add: get_cmd_type_def)

theorem get_cmd_type_category_witness:
  "get_cmd_type ''ipv6'' (Some ''CUSTOMER-A'') = ''ipv6_vpn'' \<and>
   get_cmd_type ''ipv6'' (Some []) = ''ipv6_default''"
  using get_cmd_type_category [of "''ipv6''" "Some ''CUSTOMER-A''"]
    get_cmd_type_category [of "''ipv6''" "Some []"]
  by simp

subsection \<open>VRF resolution at construction\<close>

text \<open>
  Claim C2.  Construction resolves the VRF record of the device whose name equals the
  query's VRF.  When no record of the device has that name it raises the
  \<open>HyperglassError\<close> whose keywords are the requested name; when several records have
  it, the last of them in the device's list is the one stored.  A stored record is
  always a record of the device with the requested name.
\<close>

theorem Construct_init_resolves_vrf:
  "Construct_init dev qd tr =
     (case filter (\<lambda>v. Some (name v) = query_vrf qd) (vrfs dev) of
        [] \<Rightarrow>
          Inl (HyperglassError ''Unable to match query VRF to any configured VRFs''
                 ''danger'' [query_vrf qd])
      | m # ms \<Rightarrow>
          Inr \<lparr>self_device = dev, self_query_data = qd, self_transport = tr,
               self_query_target = query_target qd, self_query_vrf = query_vrf qd,
               self_device_vrf = last (m # ms)\<rparr>) \<and>
   (\<forall>c. Construct_init dev qd tr = Inr c \<longrightarrow>
      self_device_vrf c \<in> set (vrfs dev) \<and>
      Some (name (self_device_vrf c)) = query_vrf qd)"
proof -
  let ?ms = "filter (\<lambda>v. Some (name v) = query_vrf qd) (vrfs dev)"
  have eq: "Construct_init dev qd tr =
     (case ?ms of
        [] \<Rightarrow>
          Inl (HyperglassError ''Unable to match query VRF to any configured VRFs''
                 ''danger'' [query_vrf qd])
      | m # ms \<Rightarrow>
          Inr \<lparr>self_device = dev, self_query_data = qd, self_transport = tr,
               self_query_target = query_target qd, self_query_vrf = query_vrf qd,
               self_device_vrf = last (m # ms)\<rparr>)"
    by (simp add: Construct_init_def get_device_vrf_def get_device_vrf_loop_filter
          split: list.splits)
  have mem: "?ms \<noteq> [] \<Longrightarrow> last ?ms \<in> set ?ms"
    by (rule last_in_set)
  have "\<forall>c. Construct_init dev qd tr = Inr c \<longrightarrow>
      self_device_vrf c \<in> set (vrfs dev) \<and>
      Some (name (self_device_vrf c)) = query_vrf qd"
  proof (intro allI impI)
    fix c
    assume c: "Construct_init dev qd tr = Inr c"
    then obtain m ms where ms: "?ms = m # ms" and dv: "self_device_vrf c = last (m # ms)"
      unfolding eq by (auto split: list.splits)
    from mem ms have "last (m # ms) \<in> set ?ms" by simp
    then show "self_device_vrf c \<in> set (vrfs dev) \<and>
        Some (name (self_device_vrf c)) = query_vrf qd"
      using dv by simp
  qed
  with eq show ?thesis by blast
qed

theorem Construct_init_resolves_vrf_witness:
  "Construct_init ex_dup_device
     \<lparr>query_target = ''192.0.2.7'', query_vrf = Some ''default''\<rparr> ''rest'' =
     Inr \<lparr>self_device = ex_dup_device,
          self_query_data = \<lparr>query_target = ''192.0.2.7'', query_vrf = Some ''default''\<rparr>,
          self_transport = ''rest'', self_query_target = ''192.0.2.7'',
          self_query_vrf = Some ''default'',
          self_device_vrf = ex_vrf_v6only\<rparr> \<and>
   Construct_init ex_dup_device
     \<lparr>query_target = ''192.0.2.7'', query_vrf = Some ''MISSING''\<rparr> ''rest'' =
     Inl (HyperglassError ''Unable to match query VRF to any configured VRFs'' ''danger''
            [Some ''MISSING''])"
  using Construct_init_resolves_vrf [of ex_dup_device
      "\<lparr>query_target = ''192.0.2.7'', query_vrf = Some ''default''\<rparr>" "''rest''"]
    Construct_init_resolves_vrf [of ex_dup_device
      "\<lparr>query_target = ''192.0.2.7'', query_vrf = Some ''MISSING''\<rparr>" "''rest''"]
  by (simp add: ex_dup_device_def ex_vrf_default_def ex_vrf_cust_def ex_vrf_v6only_def)

subsection \<open>Target formatting for \<open>bgp_route\<close>\<close>

text \<open>
  Claim C1, as the code has it.  For a \<open>bgp_route\<close> query on a device whose NOS is in
  \<open>target_format_space\<close>, the target with every \<open>/\<close> replaced by a space is what
  both transports embed: it is the \<open>target\<close> field of the API artifact, and it is the
  \<open>target\<close> keyword with which the CLI template is rendered.  \<open>bgp_route\<close> calls
  \<open>format_target\<close> in the \<open>rest\<close> branch as well as in the \<open>scrape\<close> branch.
\<close>

theorem bgp_route_target_escaped:
  assumes "nos (self_device self) \<in> set (target_format_space E)"
    and "ip_network E (self_query_target self) = Some net"
    and "target_family net (self_device_vrf self) = Some a"
  shows
  "(self_transport self = ''rest'' \<longrightarrow>
      bgp_route E self =
        Inr [JsonDumps
              [(''query_type'', JStr ''bgp_route''),
               (''vrf'', JStr (vrf_name a)),
               (''afi'', JStr (get_cmd_type (protocol_name net) (self_query_vrf self))),
               (''source'', JNull),
               (''target'', JStr (escape_slash (self_query_target self)))]]) \<and>
   (self_transport self = ''scrape'' \<longrightarrow>
      bgp_route E self =
        (case device_commands E (commands (self_device self))
                (get_cmd_type (protocol_name net) (self_query_vrf self)) ''bgp_route'' of
           Inl e \<Rightarrow> Inl e
         | Inr cmd \<Rightarrow>
             (case cmd_format cmd of
                Inl e \<Rightarrow> Inl e
              | Inr t \<Rightarrow>
                  (case str_format t
                          [(''target'', escape_slash (self_query_target self)),
                           (''source'', str_source (source_address a)),
                           (''vrf'', vrf_name a)] of
                     Inl e \<Rightarrow> Inl e
                   | Inr s \<Rightarrow> Inr [Cmd s]))))"
  using assms
  by (simp add: bgp_route_def protocol_of_version getattr_vrf_protocol Let_def
        format_target_escape split: sum.splits)

theorem bgp_route_target_escaped_witness:
  "bgp_route ex_env (ex_self ''rest'' ''192.0.2.0/24'' ex_vrf_default) =
     Inr [JsonDumps
           [(''query_type'', JStr ''bgp_route''),
            (''vrf'', JStr ''default''),
            (''afi'', JStr ''ipv4_default''),
            (''source'', JNull),
            (''target'', JStr ''192.0.2.0 24'')]] \<and>
   bgp_route ex_env (ex_self ''scrape'' ''192.0.2.0/24'' ex_vrf_default) =
     Inr [Cmd ''show bgp 192.0.2.0 24'']"
proof -
  have fam: "target_family IPv4Network ex_vrf_default = Some ex_v4"
    by (simp add: target_family_def ex_vrf_default_def)
  have r: "nos (self_device (ex_self ''rest'' ''192.0.2.0/24'' ex_vrf_default))
      \<in> set (target_format_space ex_env)"
    "ip_network ex_env (self_query_target (ex_self ''rest'' ''192.0.2.0/24'' ex_vrf_default))
      = Some IPv4Network"
    "target_family IPv4Network (self_device_vrf (ex_self ''rest'' ''192.0.2.0/24'' ex_vrf_default))
      = Some ex_v4"
    using fam by (simp_all add: ex_self_def ex_env_def ex_device_def ex_parse_def)
  have s: "nos (self_device (ex_self ''scrape'' ''192.0.2.0/24'' ex_vrf_default))
      \<in> set (target_format_space ex_env)"
    "ip_network ex_env (self_query_target (ex_self ''scrape'' ''192.0.2.0/24'' ex_vrf_default))
      = Some IPv4Network"
    "target_family IPv4Network (self_device_vrf (ex_self ''scrape'' ''192.0.2.0/24'' ex_vrf_default))
      = Some ex_v4"
    using fam by (simp_all add: ex_self_def ex_env_def ex_device_def ex_parse_def)
  show ?thesis
    using bgp_route_target_escaped [OF r] bgp_route_target_escaped [OF s] ex_lookup
    by (simp add: ex_self_def ex_device_def ex_vrf_default_def ex_v4_def protocol_name_def
          get_cmd_type_def escape_slash_def)
qed

text \<open>
  The claim as it was stated, that the API artifact carries the unmodified target, fails
  on the sample device (NOS \<open>huawei\<close>, which is in \<open>target_format_space\<close>): the
  \<open>target\<close> field of the payload for \<open>192.0.2.0/24\<close> is \<open>192.0.2.0 24\<close>.
\<close>

theorem bgp_route_rest_target_counterexample:
  "nos (self_device (ex_self ''rest'' ''192.0.2.0/24'' ex_vrf_default))
     \<in> set (target_format_space ex_env) \<and>
   bgp_route ex_env (ex_self ''rest'' ''192.0.2.0/24'' ex_vrf_default) =
     Inr [JsonDumps
           [(''query_type'', JStr ''bgp_route''),
            (''vrf'', JStr ''default''),
            (''afi'', JStr ''ipv4_default''),
            (''source'', JNull),
            (''target'', JStr ''192.0.2.0 24'')]]"
  by (simp add: bgp_route_def ex_self_def ex_env_def ex_device_def ex_vrf_default_def
        ex_parse_def ex_v4_def str_version_def getattr_vrf_def get_cmd_type_def
        format_target_def)

subsection \<open>Address family of a single-target query\<close>




subsection \<open>The source field of API artifacts\<close>

text \<open>
  Claim C5.  Every API artifact in a list returned by \<open>ping\<close> or \<open>traceroute\<close> has a
  \<open>source\<close> field that is a string, the compressed source address of the sub-record of
  the target's family; every API artifact in a list returned by \<open>bgp_route\<close>,
  \<open>bgp_community\<close> or \<open>bgp_aspath\<close> has the \<open>source\<close> field \<open>null\<close>.
\<close>

theorem api_source_field:
  "(ping E self = Inr arts \<and> JsonDumps d \<in> set arts \<longrightarrow>
      (\<exists>net a src. ip_network E (self_query_target self) = Some net \<and>
         target_family net (self_device_vrf self) = Some a \<and>
         source_address a = Some src \<and>
         map_of d ''source'' = Some (JStr (compressed src)))) \<and>
   (traceroute E self = Inr arts \<and> JsonDumps d \<in> set arts \<longrightarrow>
      (\<exists>net a src. ip_network E (self_query_target self) = Some net \<and>
         target_family net (self_device_vrf self) = Some a \<and>
         source_address a = Some src \<and>
         map_of d ''source'' = Some (JStr (compressed src)))) \<and>
   (bgp_route E self = Inr arts \<and> JsonDumps d \<in> set arts \<longrightarrow>
      map_of d ''source'' = Some JNull) \<and>
   (bgp_community E self = Inr arts \<and> JsonDumps d \<in> set arts \<longrightarrow>
      map_of d ''source'' = Some JNull) \<and>
   (bgp_aspath E self = Inr arts \<and> JsonDumps d \<in> set arts \<longrightarrow>
      map_of d ''source'' = Some JNull)"
proof -
  have p: "ping E self = Inr arts \<and> JsonDumps d \<in> set arts \<longrightarrow>
      (\<exists>net a src. ip_network E (self_query_target self) = Some net \<and>
         target_family net (self_device_vrf self) = Some a \<and>
         source_address a = Some src \<and>
         map_of d ''source'' = Some (JStr (compressed src)))"
    by (auto simp: ping_def protocol_of_version getattr_vrf_protocol Let_def
          split: sum.splits option.splits if_splits)
  have t: "traceroute E self = Inr arts \<and> JsonDumps d \<in> set arts \<longrightarrow>
      (\<exists>net a src. ip_network E (self_query_target self) = Some net \<and>
         target_family net (self_device_vrf self) = Some a \<and>
         source_address a = Some src \<and>
         map_of d ''source'' = Some (JStr (compressed src)))"
    by (auto simp: traceroute_def protocol_of_version getattr_vrf_protocol Let_def
          split: sum.splits option.splits if_splits)
  have r: "bgp_route E self = Inr arts \<and> JsonDumps d \<in> set arts \<longrightarrow>
      map_of d ''source'' = Some JNull"
    by (auto simp: bgp_route_def protocol_of_version getattr_vrf_protocol Let_def
          split: sum.splits option.splits if_splits)
  have fan: "map_of d ''source'' = Some JNull"
    if "sequence (map (\<lambda>(k, a). fanout_artifact E self qt k a) ps) = Inr arts"
      and "JsonDumps d \<in> set arts" for qt ps
  proof -
    from sequence_member [OF that]
    obtain k a where "fanout_artifact E self qt k a = Inr (JsonDumps d)"
      by auto
    then show ?thesis
      by (auto simp: fanout_artifact_def split: if_splits sum.splits)
  qed
  have c: "bgp_community E self = Inr arts \<and> JsonDumps d \<in> set arts \<longrightarrow>
      map_of d ''source'' = Some JNull"
  proof (cases "self_transport self = ''rest'' \<or> self_transport self = ''scrape''")
    case True
    then show ?thesis using fan bgp_community_fanout [OF True, of E] by auto
  next
    case False
    then show ?thesis using fanout_other_transport [of self E] by auto
  qed
  have a: "bgp_aspath E self = Inr arts \<and> JsonDumps d \<in> set arts \<longrightarrow>
      map_of d ''source'' = Some JNull"
  proof (cases "self_transport self = ''rest'' \<or> self_transport self = ''scrape''")
    case True
    then show ?thesis using fan bgp_aspath_fanout [OF True, of E] by auto
  next
    case False
    then show ?thesis using fanout_other_transport [of self E] by auto
  qed
  from p t r c a show ?thesis by blast
qed

theorem api_source_field_witness:
  "ping ex_env (ex_self ''rest'' ''192.0.2.7'' ex_vrf_default) =
     Inr [JsonDumps
           [(''query_type'', JStr ''ping''),
            (''vrf'', JStr ''default''),
            (''afi'', JStr ''ipv4_default''),
            (''source'', JStr ''192.0.2.1''),
            (''target'', JStr ''192.0.2.7'')]] \<and>
   (\<exists>src. map_of
      [(''query_type'', JStr ''ping''),
       (''vrf'', JStr ''default''),
       (''afi'', JStr ''ipv4_default''),
       (''source'', JStr ''192.0.2.1''),
       (''target'', JStr ''192.0.2.7'')] ''source'' = Some (JStr (compressed src)))"
proof -
  let ?d = "[(''query_type'', JStr ''ping''),
       (''vrf'', JStr ''default''),
       (''afi'', JStr ''ipv4_default''),
       (''source'', JStr ''192.0.2.1''),
       (''target'', JStr ''192.0.2.7'')]"
  have run: "ping ex_env (ex_self ''rest'' ''192.0.2.7'' ex_vrf_default) = Inr [JsonDumps ?d]"
    by (simp add: ping_def ex_defs str_version_def getattr_vrf_def get_cmd_type_def)
  from api_source_field [of ex_env "ex_self ''rest'' ''192.0.2.7'' ex_vrf_default"
      "[JsonDumps ?d]" ?d] run
  have "\<exists>net a src. ip_network ex_env
          (self_query_target (ex_self ''rest'' ''192.0.2.7'' ex_vrf_default)) = Some net \<and>
         target_family net (self_device_vrf (ex_self ''rest'' ''192.0.2.7'' ex_vrf_default)) =
           Some a \<and>
         source_address a = Some src \<and>
         map_of ?d ''source'' = Some (JStr (compressed src))"
    by simp
  then have "\<exists>src. map_of ?d ''source'' = Some (JStr (compressed src))"
    by blast
  with run show ?thesis by blast
qed

subsection \<open>Transports other than \<open>rest\<close> and \<open>scrape\<close>\<close>

text \<open>
  Claim C9, as the code has it.  For every transport string other than \<open>rest\<close> and
  \<open>scrape\<close>, \<open>bgp_community\<close> and \<open>bgp_aspath\<close> return the empty list and raise nothing.
  \<open>ping\<close>, \<open>traceroute\<close> and \<open>bgp_route\<close> parse the target before they look at the
  transport: they return the empty list when the parser accepts the target, and raise
  the parser's \<open>ValueError\<close> when it does not.
\<close>

theorem other_transport_empty:
  assumes "self_transport self \<noteq> ''rest''" and "self_transport self \<noteq> ''scrape''"
  shows
  "ping E self =
     (case ip_network E (self_query_target self) of
        None \<Rightarrow> Inl ValueError
      | Some net \<Rightarrow> Inr []) \<and>
   traceroute E self =
     (case ip_network E (self_query_target self) of
        None \<Rightarrow> Inl ValueError
      | Some net \<Rightarrow> Inr []) \<and>
   bgp_route E self =
     (case ip_network E (self_query_target self) of
        None \<Rightarrow> Inl ValueError
      | Some net \<Rightarrow> Inr []) \<and>
   (ip_network E (self_query_target self) \<noteq> None \<longrightarrow>
      ping E self = Inr [] \<and> traceroute E self = Inr [] \<and> bgp_route E self = Inr []) \<and>
   bgp_community E self = Inr [] \<and> bgp_aspath E self = Inr []"
  using assms fanout_other_transport [of self E]
  by (auto simp: single_defs protocol_of_version getattr_vrf_protocol Let_def
        split: option.splits)

theorem other_transport_empty_witness:
  "ping ex_env (ex_self ''grpc'' ''192.0.2.7'' ex_vrf_default) = Inr [] \<and>
   traceroute ex_env (ex_self ''grpc'' ''192.0.2.7'' ex_vrf_default) = Inr [] \<and>
   bgp_route ex_env (ex_self ''grpc'' ''192.0.2.7'' ex_vrf_default) = Inr [] \<and>
   bgp_community ex_env (ex_self ''grpc'' ''192.0.2.7'' ex_vrf_default) = Inr [] \<and>
   bgp_aspath ex_env (ex_self ''grpc'' ''192.0.2.7'' ex_vrf_default) = Inr [] \<and>
   bgp_route ex_env (ex_self ''grpc'' ''65000:1'' ex_vrf_default) = Inl ValueError \<and>
   bgp_aspath ex_env (ex_self ''grpc'' ''65000:1'' ex_vrf_default) = Inr []"
proof -
  have t: "self_transport (ex_self ''grpc'' tg ex_vrf_default) \<noteq> ''rest''"
    "self_transport (ex_self ''grpc'' tg ex_vrf_default) \<noteq> ''scrape''" for tg
    by (simp_all add: ex_self_def)
  have p: "ip_network ex_env (self_query_target (ex_self ''grpc'' ''192.0.2.7'' ex_vrf_default))
      = Some IPv4Network"
    "ip_network ex_env (self_query_target (ex_self ''grpc'' ''65000:1'' ex_vrf_default))
      = None"
    by (simp_all add: ex_self_def ex_env_def ex_parse_def)
  show ?thesis
    using other_transport_empty [OF t [of "''192.0.2.7''"], of ex_env]
      other_transport_empty [OF t [of "''65000:1''"], of ex_env] p
    by simp
qed

text \<open>
  The claim as it was stated, that every operation returns the empty list without
  raising, does not hold for the single-target operations on a target the parser
  rejects: with the transport \<open>grpc\<close> and the community \<open>65000:1\<close> as target, the three
  operations raise \<open>ValueError\<close>.
\<close>

theorem other_transport_unparsed_counterexample:
  "self_transport (ex_self ''grpc'' ''65000:1'' ex_vrf_default) = ''grpc'' \<and>
   ip_network ex_env ''65000:1'' = None \<and>
   ping ex_env (ex_self ''grpc'' ''65000:1'' ex_vrf_default) = Inl ValueError \<and>
   traceroute ex_env (ex_self ''grpc'' ''65000:1'' ex_vrf_default) = Inl ValueError \<and>
   bgp_route ex_env (ex_self ''grpc'' ''65000:1'' ex_vrf_default) = Inl ValueError"
  by (simp add: single_defs ex_self_def ex_env_def ex_parse_def)

subsection \<open>Source address of \<open>ping\<close> and \<open>traceroute\<close> over the API\<close>

text \<open>
  Claim C10.  With the transport \<open>rest\<close>, \<open>ping\<close> and \<open>traceroute\<close> read \<open>compressed\<close> from
  the source address of the sub-record without a check: when the sub-record has no source
  address the operation fails with the attribute error of \<open>None\<close>, and no artifact with a
  null source is produced.
\<close>

theorem rest_probe_requires_source:
  assumes "self_transport self = ''rest''"
    and "ip_network E (self_query_target self) = Some net"
    and "target_family net (self_device_vrf self) = Some a"
    and "source_address a = None"
  shows "ping E self = Inl (AttributeError NoneType ''compressed'') \<and>
         traceroute E self = Inl (AttributeError NoneType ''compressed'')"
  using assms
  by (simp add: single_defs protocol_of_version getattr_vrf_protocol Let_def)

theorem rest_probe_requires_source_witness:
  "ping ex_env (ex_self ''rest'' ''192.0.2.7'' ex_vrf_cust) =
     Inl (AttributeError NoneType ''compressed'') \<and>
   traceroute ex_env (ex_self ''rest'' ''192.0.2.7'' ex_vrf_cust) =
     Inl (AttributeError NoneType ''compressed'')"
proof -
  have h: "self_transport (ex_self ''rest'' ''192.0.2.7'' ex_vrf_cust) = ''rest''"
    "ip_network ex_env (self_query_target (ex_self ''rest'' ''192.0.2.7'' ex_vrf_cust)) =
       Some IPv4Network"
    "target_family IPv4Network (self_device_vrf (ex_self ''rest'' ''192.0.2.7'' ex_vrf_cust)) =
       Some ex_cust4"
    "source_address ex_cust4 = None"
    by (simp_all add: ex_defs target_family_def)
  show ?thesis by (rule rest_probe_requires_source [OF h])
qed

subsection \<open>Fan-out over the address families of the VRF\<close>

text \<open>
  Claim C3, as the code has it.  For \<open>bgp_community\<close> and \<open>bgp_aspath\<close> with the transport
  \<open>rest\<close> or \<open>scrape\<close>, a returned list holds exactly one artifact for each address family
  populated on the resolved VRF record, \<open>ipv4\<close> before \<open>ipv6\<close>: two artifacts for a VRF
  with both families, one for a VRF with one family, and a family that is absent adds
  no artifact and raises nothing.  With \<open>rest\<close> the list is always returned; with
  \<open>scrape\<close> the result is the list of the rendered commands of the populated families,
  or the error of the first family whose template lookup or rendering fails.  Artifacts
  are built only inside the branches for these two transports, so with any other
  transport string the list is empty whatever the VRF has.
\<close>

theorem fanout_per_populated_family:
  "(self_transport self = ''rest'' \<longrightarrow>
      bgp_community E self =
        Inr (map (\<lambda>(k, a).
               JsonDumps
                 [(''query_type'', JStr ''bgp_community''),
                  (''vrf'', JStr (vrf_name a)),
                  (''afi'', JStr (get_cmd_type k (self_query_vrf self))),
                  (''target'', JStr (self_query_target self)),
                  (''source'', JNull)])
             (populated (self_device_vrf self))) \<and>
      bgp_aspath E self =
        Inr (map (\<lambda>(k, a).
               JsonDumps
                 [(''query_type'', JStr ''bgp_aspath''),
                  (''vrf'', JStr (vrf_name a)),
                  (''afi'', JStr (get_cmd_type k (self_query_vrf self))),
                  (''target'', JStr (self_query_target self)),
                  (''source'', JNull)])
             (populated (self_device_vrf self)))) \<and>
   (self_transport self = ''scrape'' \<longrightarrow>
      bgp_community E self =
        sequence (map (\<lambda>(k, a). fanout_artifact E self ''bgp_community'' k a)
                    (populated (self_device_vrf self))) \<and>
      bgp_aspath E self =
        sequence (map (\<lambda>(k, a). fanout_artifact E self ''bgp_aspath'' k a)
                    (populated (self_device_vrf self)))) \<and>
   (self_transport self = ''rest'' \<or> self_transport self = ''scrape'' \<longrightarrow>
      (\<forall>arts. bgp_community E self = Inr arts \<longrightarrow>
         length arts = length (populated (self_device_vrf self))) \<and>
      (\<forall>arts. bgp_aspath E self = Inr arts \<longrightarrow>
         length arts = length (populated (self_device_vrf self)))) \<and>
   (self_transport self \<noteq> ''rest'' \<and> self_transport self \<noteq> ''scrape'' \<longrightarrow>
      bgp_community E self = Inr [] \<and> bgp_aspath E self = Inr []) \<and>
   map fst (populated (self_device_vrf self)) =
     (if ipv4 (self_device_vrf self) = None then [] else [''ipv4'']) @
     (if ipv6 (self_device_vrf self) = None then [] else [''ipv6''])"
proof -
  let ?v = "self_device_vrf self"
  have rest: "self_transport self = ''rest'' \<longrightarrow>
      bgp_community E self =
        Inr (map (\<lambda>(k, a).
               JsonDumps
                 [(''query_type'', JStr ''bgp_community''),
                  (''vrf'', JStr (vrf_name a)),
                  (''afi'', JStr (get_cmd_type k (self_query_vrf self))),
                  (''target'', JStr (self_query_target self)),
                  (''source'', JNull)])
             (populated ?v)) \<and>
      bgp_aspath E self =
        Inr (map (\<lambda>(k, a).
               JsonDumps
                 [(''query_type'', JStr ''bgp_aspath''),
                  (''vrf'', JStr (vrf_name a)),
                  (''afi'', JStr (get_cmd_type k (self_query_vrf self))),
                  (''target'', JStr (self_query_target self)),
                  (''source'', JNull)])
             (populated ?v))"
    by (cases "ipv4 ?v"; cases "ipv6 ?v")
       (simp_all add: bgp_community_fanout bgp_aspath_fanout populated_def
          fanout_artifact_def)
  have scrape: "self_transport self = ''scrape'' \<longrightarrow>
      bgp_community E self =
        sequence (map (\<lambda>(k, a). fanout_artifact E self ''bgp_community'' k a)
                    (populated ?v)) \<and>
      bgp_aspath E self =
        sequence (map (\<lambda>(k, a). fanout_artifact E self ''bgp_aspath'' k a)
                    (populated ?v))"
    by (simp add: bgp_community_fanout bgp_aspath_fanout)
  have len: "self_transport self = ''rest'' \<or> self_transport self = ''scrape'' \<longrightarrow>
      (\<forall>arts. bgp_community E self = Inr arts \<longrightarrow> length arts = length (populated ?v)) \<and>
      (\<forall>arts. bgp_aspath E self = Inr arts \<longrightarrow> length arts = length (populated ?v))"
  proof (intro impI conjI allI)
    fix arts
    assume tr: "self_transport self = ''rest'' \<or> self_transport self = ''scrape''"
      and r: "bgp_community E self = Inr arts"
    from sequence_length [OF r [unfolded bgp_community_fanout [OF tr]]]
    show "length arts = length (populated ?v)" by simp
  next
    fix arts
    assume tr: "self_transport self = ''rest'' \<or> self_transport self = ''scrape''"
      and r: "bgp_aspath E self = Inr arts"
    from sequence_length [OF r [unfolded bgp_aspath_fanout [OF tr]]]
    show "length arts = length (populated ?v)" by simp
  qed
  have other: "self_transport self \<noteq> ''rest'' \<and> self_transport self \<noteq> ''scrape'' \<longrightarrow>
      bgp_community E self = Inr [] \<and> bgp_aspath E self = Inr []"
    using fanout_other_transport [of self E] by blast
  from rest scrape len other populated_keys [of ?v] show ?thesis
    by blast
qed

theorem fanout_per_populated_family_witness:
  "bgp_community ex_env (ex_self ''rest'' ''65000:1'' ex_vrf_default) =
     Inr [JsonDumps
            [(''query_type'', JStr ''bgp_community''),
             (''vrf'', JStr ''default''),
             (''afi'', JStr ''ipv4_default''),
             (''target'', JStr ''65000:1''),
             (''source'', JNull)],
          JsonDumps
            [(''query_type'', JStr ''bgp_community''),
             (''vrf'', JStr ''default''),
             (''afi'', JStr ''ipv6_default''),
             (''target'', JStr ''65000:1''),
             (''source'', JNull)]] \<and>
   bgp_aspath ex_env (ex_self ''scrape'' ''65000:1'' ex_vrf_default) =
     Inr [Cmd ''show bgp regexp 65000:1'', Cmd ''show bgp regexp 65000:1''] \<and>
   bgp_aspath ex_env (ex_self ''scrape'' ''65000:1'' ex_vrf_v6only) =
     Inr [Cmd ''show bgp regexp 65000:1''] \<and>
   bgp_community ex_env (ex_self ''rest'' ''65000:1'' ex_vrf_cust) =
     Inr [JsonDumps
            [(''query_type'', JStr ''bgp_community''),
             (''vrf'', JStr ''cust-a''),
             (''afi'', JStr ''ipv4_vpn''),
             (''target'', JStr ''65000:1''),
             (''source'', JNull)]]"
  using fanout_per_populated_family [of "ex_self ''rest'' ''65000:1'' ex_vrf_default" ex_env]
    fanout_per_populated_family [of "ex_self ''scrape'' ''65000:1'' ex_vrf_default" ex_env]
    fanout_per_populated_family [of "ex_self ''scrape'' ''65000:1'' ex_vrf_v6only" ex_env]
    fanout_per_populated_family [of "ex_self ''rest'' ''65000:1'' ex_vrf_cust" ex_env]
    ex_lookup
  by (simp add: ex_self_def ex_device_def ex_vrf_default_def ex_vrf_cust_def
        ex_vrf_v6only_def ex_v4_def ex_v6_def ex_cust4_def populated_def
        fanout_artifact_def get_cmd_type_def)

text \<open>
  The claim as it was stated, for every invocation, does not hold for a transport other
  than \<open>rest\<close> and \<open>scrape\<close>: the sample VRF \<open>default\<close> has both families, and both
  operations return the empty list.
\<close>

theorem fanout_other_transport_counterexample:
  "populated ex_vrf_default = [(''ipv4'', ex_v4), (''ipv6'', ex_v6)] \<and>
   bgp_community ex_env (ex_self ''grpc'' ''65000:1'' ex_vrf_default) = Inr [] \<and>
   bgp_aspath ex_env (ex_self ''grpc'' ''65000:1'' ex_vrf_default) = Inr []"
  by (simp add: populated_def bgp_community_def bgp_aspath_def collect_afis_def
        vrf_dict_def getattr_vrf_def ex_self_def ex_vrf_default_def)

subsection \<open>Templates missing from the catalogue\<close>

text \<open>
  Claim C7.  With the transport \<open>scrape\<close>, a query whose combination of command set,
  command category and query type is not in the catalogue fails with the error of the
  lookup, an \<open>AttributeError\<close>, and returns no list.  For \<open>ping\<close>, \<open>traceroute\<close> and
  \<open>bgp_route\<close> (on a target the parser accepts) the lookup is the first thing that can
  fail.  For \<open>bgp_community\<close> and \<open>bgp_aspath\<close> the lookups are those of the populated
  families: when one of them fails the operation fails and no partial list is returned,
  and the error is the one of that lookup when the families before it were rendered.
\<close>

theorem template_not_found:
  assumes "self_transport self = ''scrape''"
  shows
  "(\<forall>net e. ip_network E (self_query_target self) = Some net \<and>
        device_commands E (commands (self_device self))
          (get_cmd_type (protocol_name net) (self_query_vrf self)) ''ping'' = Inl e \<longrightarrow>
        ping E self = Inl e) \<and>
   (\<forall>net e. ip_network E (self_query_target self) = Some net \<and>
        device_commands E (commands (self_device self))
          (get_cmd_type (protocol_name net) (self_query_vrf self)) ''traceroute'' = Inl e \<longrightarrow>
        traceroute E self = Inl e) \<and>
   (\<forall>net e. ip_network E (self_query_target self) = Some net \<and>
        device_commands E (commands (self_device self))
          (get_cmd_type (protocol_name net) (self_query_vrf self)) ''bgp_route'' = Inl e \<longrightarrow>
        bgp_route E self = Inl e) \<and>
   (\<forall>k a e. (k, a) \<in> set (populated (self_device_vrf self)) \<and>
        device_commands E (commands (self_device self))
          (get_cmd_type k (self_query_vrf self)) ''bgp_community'' = Inl e \<longrightarrow>
        (\<exists>e'. bgp_community E self = Inl e')) \<and>
   (\<forall>k a e. (k, a) \<in> set (populated (self_device_vrf self)) \<and>
        device_commands E (commands (self_device self))
          (get_cmd_type k (self_query_vrf self)) ''bgp_aspath'' = Inl e \<longrightarrow>
        (\<exists>e'. bgp_aspath E self = Inl e')) \<and>
   (\<forall>ps1 k a ps2 xs e.
        populated (self_device_vrf self) = ps1 @ (k, a) # ps2 \<and>
        sequence (map (\<lambda>(k, a). fanout_artifact E self ''bgp_community'' k a) ps1) = Inr xs \<and>
        device_commands E (commands (self_device self))
          (get_cmd_type k (self_query_vrf self)) ''bgp_community'' = Inl e \<longrightarrow>
        bgp_community E self = Inl e) \<and>
   (\<forall>ps1 k a ps2 xs e.
        populated (self_device_vrf self) = ps1 @ (k, a) # ps2 \<and>
        sequence (map (\<lambda>(k, a). fanout_artifact E self ''bgp_aspath'' k a) ps1) = Inr xs \<and>
        device_commands E (commands (self_device self))
          (get_cmd_type k (self_query_vrf self)) ''bgp_aspath'' = Inl e \<longrightarrow>
        bgp_aspath E self = Inl e) \<and>
   (\<forall>n c q e. device_commands E n c q = Inl e \<longrightarrow> (\<exists>ow at. e = AttributeError ow at))"
proof -
  have tr: "self_transport self = ''rest'' \<or> self_transport self = ''scrape''"
    using assms by simp
  have single:
    "\<forall>net e. ip_network E (self_query_target self) = Some net \<and>
        device_commands E (commands (self_device self))
          (get_cmd_type (protocol_name net) (self_query_vrf self)) ''ping'' = Inl e \<longrightarrow>
        ping E self = Inl e"
    "\<forall>net e. ip_network E (self_query_target self) = Some net \<and>
        device_commands E (commands (self_device self))
          (get_cmd_type (protocol_name net) (self_query_vrf self)) ''traceroute'' = Inl e \<longrightarrow>
        traceroute E self = Inl e"
    "\<forall>net e. ip_network E (self_query_target self) = Some net \<and>
        device_commands E (commands (self_device self))
          (get_cmd_type (protocol_name net) (self_query_vrf self)) ''bgp_route'' = Inl e \<longrightarrow>
        bgp_route E self = Inl e"
    using assms
    by (simp_all add: single_defs protocol_of_version getattr_vrf_protocol Let_def)
  have some:
    "\<forall>k a e. (k, a) \<in> set (populated (self_device_vrf self)) \<and>
        device_commands E (commands (self_device self))
          (get_cmd_type k (self_query_vrf self)) ''bgp_community'' = Inl e \<longrightarrow>
        (\<exists>e'. bgp_community E self = Inl e')"
    "\<forall>k a e. (k, a) \<in> set (populated (self_device_vrf self)) \<and>
        device_commands E (commands (self_device self))
          (get_cmd_type k (self_query_vrf self)) ''bgp_aspath'' = Inl e \<longrightarrow>
        (\<exists>e'. bgp_aspath E self = Inl e')"
    unfolding bgp_community_fanout [OF tr] bgp_aspath_fanout [OF tr]
    using fanout_sequence_fails [OF assms] by blast+
  have at:
    "\<forall>ps1 k a ps2 xs e.
        populated (self_device_vrf self) = ps1 @ (k, a) # ps2 \<and>
        sequence (map (\<lambda>(k, a). fanout_artifact E self ''bgp_community'' k a) ps1) = Inr xs \<and>
        device_commands E (commands (self_device self))
          (get_cmd_type k (self_query_vrf self)) ''bgp_community'' = Inl e \<longrightarrow>
        bgp_community E self = Inl e"
    "\<forall>ps1 k a ps2 xs e.
        populated (self_device_vrf self) = ps1 @ (k, a) # ps2 \<and>
        sequence (map (\<lambda>(k, a). fanout_artifact E self ''bgp_aspath'' k a) ps1) = Inr xs \<and>
        device_commands E (commands (self_device self))
          (get_cmd_type k (self_query_vrf self)) ''bgp_aspath'' = Inl e \<longrightarrow>
        bgp_aspath E self = Inl e"
    unfolding bgp_community_fanout [OF tr] bgp_aspath_fanout [OF tr]
    using fanout_sequence_fails_at [OF assms] by auto
  have err: "\<forall>n c q e. device_commands E n c q = Inl e \<longrightarrow> (\<exists>ow at. e = AttributeError ow at)"
    using device_commands_error by blast
  from single some at err show ?thesis by blast
qed

theorem template_not_found_witness:
  "ping ex_env (ex_self ''scrape'' ''192.0.2.7'' ex_vrf_cust) =
     Inl (AttributeError CommandsObj ''ipv4_vpn'') \<and>
   bgp_route ex_env (ex_self ''scrape'' ''192.0.2.0/24'' ex_vrf_cust) =
     Inl (AttributeError CommandsObj ''ipv4_vpn'') \<and>
   bgp_community ex_env (ex_self ''scrape'' ''65000:1'' ex_vrf_cust) =
     Inl (AttributeError CommandsObj ''ipv4_vpn'')"
proof -
  have tr: "self_transport (ex_self ''scrape'' t ex_vrf_cust) = ''scrape''" for t
    by (simp add: ex_self_def)
  have pop: "populated (self_device_vrf (ex_self ''scrape'' ''65000:1'' ex_vrf_cust)) =
      [] @ (''ipv4'', ex_cust4) # []"
    by (simp add: ex_self_def ex_vrf_cust_def populated_def)
  have look: "device_commands ex_env (commands (self_device (ex_self ''scrape'' t ex_vrf_cust)))
      (get_cmd_type ''ipv4'' (self_query_vrf (ex_self ''scrape'' t ex_vrf_cust))) q =
      Inl (AttributeError CommandsObj ''ipv4_vpn'')" for t q
    using ex_lookup(8) by (simp add: ex_self_def ex_device_def ex_vrf_cust_def get_cmd_type_def)
  have p1: "ip_network ex_env (self_query_target (ex_self ''scrape'' ''192.0.2.7'' ex_vrf_cust)) =
      Some IPv4Network"
    and p2: "ip_network ex_env (self_query_target (ex_self ''scrape'' ''192.0.2.0/24'' ex_vrf_cust)) =
      Some IPv4Network"
    by (simp_all add: ex_self_def ex_env_def ex_parse_def)
  have pn: "protocol_name IPv4Network = ''ipv4''"
    by (simp add: protocol_name_def)
  have s0: "sequence (map (\<lambda>(k, a). fanout_artifact ex_env
      (ex_self ''scrape'' ''65000:1'' ex_vrf_cust) ''bgp_community'' k a) []) = Inr []"
    by simp
  from template_not_found [OF tr, of ex_env "''192.0.2.7''"] p1 look pn
  have a: "ping ex_env (ex_self ''scrape'' ''192.0.2.7'' ex_vrf_cust) =
     Inl (AttributeError CommandsObj ''ipv4_vpn'')"
    by metis
  from template_not_found [OF tr, of ex_env "''192.0.2.0/24''"] p2 look pn
  have b: "bgp_route ex_env (ex_self ''scrape'' ''192.0.2.0/24'' ex_vrf_cust) =
     Inl (AttributeError CommandsObj ''ipv4_vpn'')"
    by metis
  from template_not_found [OF tr, of ex_env "''65000:1''"] pop look s0
  have c: "bgp_community ex_env (ex_self ''scrape'' ''65000:1'' ex_vrf_cust) =
     Inl (AttributeError CommandsObj ''ipv4_vpn'')"
    by metis
  from a b c show ?thesis by blast
qed

subsection \<open>One target and one VRF for all artifacts of an invocation\<close>

text \<open>
  Claim C8.  All artifacts of a returned list are built from the same query target and
  the same query VRF.  Every artifact of a fan-out query is \<open>fanout_artifact\<close> of one
  populated family of the resolved VRF: between two artifacts only the family, and with
  it the command category, the source address and the table name of the sub-record, can
  differ; every API artifact has the query target as its \<open>target\<close> field and a category
  computed from the query VRF as its \<open>afi\<close> field.  The lists of the single-target
  operations have at most one artifact, whose \<open>target\<close> field is the query target
  (for \<open>bgp_route\<close>, the query target as \<open>format_target\<close> returns it).
\<close>

theorem artifacts_share_target_and_vrf:
  "(bgp_community E self = Inr arts \<and> x \<in> set arts \<longrightarrow>
      (\<exists>k a. (k, a) \<in> set (populated (self_device_vrf self)) \<and>
         fanout_artifact E self ''bgp_community'' k a = Inr x)) \<and>
   (bgp_aspath E self = Inr arts \<and> x \<in> set arts \<longrightarrow>
      (\<exists>k a. (k, a) \<in> set (populated (self_device_vrf self)) \<and>
         fanout_artifact E self ''bgp_aspath'' k a = Inr x)) \<and>
   ((bgp_community E self = Inr arts \<or> bgp_aspath E self = Inr arts) \<and>
      JsonDumps d \<in> set arts \<longrightarrow>
      map_of d ''target'' = Some (JStr (self_query_target self)) \<and>
      (\<exists>k. map_of d ''afi'' = Some (JStr (get_cmd_type k (self_query_vrf self))))) \<and>
   (ping E self = Inr arts \<longrightarrow>
      length arts \<le> 1 \<and>
      (\<forall>d. JsonDumps d \<in> set arts \<longrightarrow>
         map_of d ''target'' = Some (JStr (self_query_target self)))) \<and>
   (traceroute E self = Inr arts \<longrightarrow>
      length arts \<le> 1 \<and>
      (\<forall>d. JsonDumps d \<in> set arts \<longrightarrow>
         map_of d ''target'' = Some (JStr (self_query_target self)))) \<and>
   (bgp_route E self = Inr arts \<longrightarrow>
      length arts \<le> 1 \<and>
      (\<forall>d. JsonDumps d \<in> set arts \<longrightarrow>
         map_of d ''target'' =
           Some (JStr (format_target E self (self_query_target self)))))"
proof -
  have fan: "\<exists>k a. (k, a) \<in> set ps \<and> fanout_artifact E self qt k a = Inr x"
    if "sequence (map (\<lambda>(k, a). fanout_artifact E self qt k a) ps) = Inr arts"
      and "x \<in> set arts" for qt ps x
  proof -
    from sequence_member [OF that]
    obtain p where p: "p \<in> set ps" "(case p of (k, a) \<Rightarrow> fanout_artifact E self qt k a) = Inr x"
      by auto
    obtain k a where "p = (k, a)" by (cases p)
    with p show ?thesis by auto
  qed
  have js: "map_of d ''target'' = Some (JStr (self_query_target self)) \<and>
      (\<exists>k. map_of d ''afi'' = Some (JStr (get_cmd_type k (self_query_vrf self))))"
    if "fanout_artifact E self qt k a = Inr (JsonDumps d)" for qt k a
    using that by (auto simp: fanout_artifact_def split: if_splits sum.splits)
  have c: "bgp_community E self = Inr arts \<and> x \<in> set arts \<longrightarrow>
      (\<exists>k a. (k, a) \<in> set (populated (self_device_vrf self)) \<and>
         fanout_artifact E self ''bgp_community'' k a = Inr x)" for x
  proof (cases "self_transport self = ''rest'' \<or> self_transport self = ''scrape''")
    case True
    then show ?thesis using fan bgp_community_fanout [OF True, of E] by auto
  next
    case False
    then show ?thesis using fanout_other_transport [of self E] by auto
  qed
  have a: "bgp_aspath E self = Inr arts \<and> x \<in> set arts \<longrightarrow>
      (\<exists>k a. (k, a) \<in> set (populated (self_device_vrf self)) \<and>
         fanout_artifact E self ''bgp_aspath'' k a = Inr x)" for x
  proof (cases "self_transport self = ''rest'' \<or> self_transport self = ''scrape''")
    case True
    then show ?thesis using fan bgp_aspath_fanout [OF True, of E] by auto
  next
    case False
    then show ?thesis using fanout_other_transport [of self E] by auto
  qed
  have j: "(bgp_community E self = Inr arts \<or> bgp_aspath E self = Inr arts) \<and>
      JsonDumps d \<in> set arts \<longrightarrow>
      map_of d ''target'' = Some (JStr (self_query_target self)) \<and>
      (\<exists>k. map_of d ''afi'' = Some (JStr (get_cmd_type k (self_query_vrf self))))"
    using c [of "JsonDumps d"] a [of "JsonDumps d"] js by blast
  have p: "ping E self = Inr arts \<longrightarrow>
      length arts \<le> 1 \<and>
      (\<forall>d. JsonDumps d \<in> set arts \<longrightarrow>
         map_of d ''target'' = Some (JStr (self_query_target self)))"
    by (auto simp: ping_def Let_def split: sum.splits option.splits if_splits)
  have t: "traceroute E self = Inr arts \<longrightarrow>
      length arts \<le> 1 \<and>
      (\<forall>d. JsonDumps d \<in> set arts \<longrightarrow>
         map_of d ''target'' = Some (JStr (self_query_target self)))"
    by (auto simp: traceroute_def Let_def split: sum.splits option.splits if_splits)
  have r: "bgp_route E self = Inr arts \<longrightarrow>
      length arts \<le> 1 \<and>
      (\<forall>d. JsonDumps d \<in> set arts \<longrightarrow>
         map_of d ''target'' =
           Some (JStr (format_target E self (self_query_target self))))"
    by (auto simp: bgp_route_def Let_def split: sum.splits option.splits if_splits)
  from c [of x] a [of x] j p t r show ?thesis by blast
qed

theorem artifacts_share_target_and_vrf_witness:
  "bgp_community ex_env (ex_self ''rest'' ''65000:1'' ex_vrf_default) =
     Inr [JsonDumps
            [(''query_type'', JStr ''bgp_community''),
             (''vrf'', JStr ''default''),
             (''afi'', JStr ''ipv4_default''),
             (''target'', JStr ''65000:1''),
             (''source'', JNull)],
          JsonDumps
            [(''query_type'', JStr ''bgp_community''),
             (''vrf'', JStr ''default''),
             (''afi'', JStr ''ipv6_default''),
             (''target'', JStr ''65000:1''),
             (''source'', JNull)]] \<and>
   (\<exists>k a. (k, a) \<in> set (populated ex_vrf_default) \<and>
      fanout_artifact ex_env (ex_self ''rest'' ''65000:1'' ex_vrf_default)
        ''bgp_community'' k a =
        Inr (JsonDumps
               [(''query_type'', JStr ''bgp_community''),
                (''vrf'', JStr ''default''),
                (''afi'', JStr ''ipv6_default''),
                (''target'', JStr ''65000:1''),
                (''source'', JNull)]))"
proof -
  let ?S = "ex_self ''rest'' ''65000:1'' ex_vrf_default"
  let ?d4 = "[(''query_type'', JStr ''bgp_community''),
             (''vrf'', JStr ''default''),
             (''afi'', JStr ''ipv4_default''),
             (''target'', JStr ''65000:1''),
             (''source'', JNull)]"
  let ?d6 = "[(''query_type'', JStr ''bgp_community''),
             (''vrf'', JStr ''default''),
             (''afi'', JStr ''ipv6_default''),
             (''target'', JStr ''65000:1''),
             (''source'', JNull)]"
  have run: "bgp_community ex_env ?S = Inr [JsonDumps ?d4, JsonDumps ?d6]"
    by (simp add: bgp_community_def collect_afis_def vrf_dict_def getattr_vrf_def
          get_cmd_type_def ex_self_def ex_vrf_default_def ex_v4_def ex_v6_def)
  have v: "self_device_vrf ?S = ex_vrf_default"
    by (simp add: ex_self_def)
  from artifacts_share_target_and_vrf
         [of ex_env ?S "[JsonDumps ?d4, JsonDumps ?d6]" "JsonDumps ?d6" ?d6] run
  have "\<exists>k a. (k, a) \<in> set (populated (self_device_vrf ?S)) \<and>
      fanout_artifact ex_env ?S ''bgp_community'' k a = Inr (JsonDumps ?d6)"
    by simp
  with run v show ?thesis by simp
qed

end
